theory Spec2Isabelle
  imports Main "HOL-Library.Sublist"
begin

section \<open>The partial-signature request handler of the signer\<close>

text \<open>
  This theory embeds \<^verbatim>\<open>handleGetBlindedMessagePartialSig\<close> of
  \<^verbatim>\<open>packages/phone-number-privacy/signer/src/signing/get-partial-signature.ts\<close>.
  The handler is orchestration code: it calls collaborators that live in other modules
  (the authenticator, the quota lookup, the chain-height read, the key provider, the
  signature engine, the request store and the query counter) and turns their results into
  one HTTP response. The collaborators are parameters of the model (the record
  \<open>env\<close>); the handler's own control flow is translated statement by statement.

  What a call of the handler does is observed in two ways: the response it sends, and the
  list of collaborator calls and metric increments it performed, in program order.
  Logging and the latency histograms have no influence on either and are left out.
  JavaScript numbers are modelled as \<open>int\<close>: the counts are integers and the only
  arithmetic is one increment.
\<close>

subsection \<open>Data\<close>

text \<open>The request body, \<^verbatim>\<open>GetBlindedMessagePartialSigRequest\<close> (lines 29-35).\<close>

record GetBlindedMessagePartialSigRequest =
  account :: string
  blindedQueryPhoneNumber :: string
  hashedPhoneNumber :: "string option"
  timestamp :: "int option"
  sessionID :: "string option"

text \<open>
  The members of the enums \<^verbatim>\<open>WarningMessage\<close> and \<^verbatim>\<open>ErrorMessage\<close> that the handler uses.
  The enums are declared in another package; the text of each member is a parameter
  (\<open>messageText\<close> below).
\<close>

datatype message =
    INVALID_INPUT
  | UNAUTHENTICATED_USER
  | EXCEEDED_QUOTA
  | DUPLICATE_REQUEST_TO_GET_PARTIAL_SIG
  | CONTRACT_GET_FAILURE
  | FAILURE_TO_STORE_REQUEST
  | FAILURE_TO_INCREMENT_QUERY_COUNT
  | UNKNOWN_ERROR

text \<open>The value a fulfilled quota lookup carries (\<^verbatim>\<open>_queryCount.value\<close>, lines 98-99).\<close>

record query_count =
  value_performedQueryCount :: int
  value_totalQuota :: int

text \<open>The body of the 200 response, \<^verbatim>\<open>SignMessageResponse\<close> (lines 163-173).\<close>

record SignMessageResponse =
  success :: bool
  signature :: string
  version :: string
  performedQueryCount :: int
  totalQuota :: int
  blockNumber :: int
  error :: "string option"

text \<open>
  What the handler sends: either a call of \<^verbatim>\<open>respondWithError\<close> with a status code, a
  message and, for the quota rejection only, the three numbers passed along
  (performedQueryCount, totalQuota, blockNumber), or \<^verbatim>\<open>response.json\<close> with the body above.
\<close>

datatype response =
    RespondWithError nat message "(int \<times> int \<times> int) option"
  | Json200 SignMessageResponse

text \<open>The metric counters the handler increments, and the collaborator calls it makes.\<close>

datatype counter =
    Counter_requests
  | Counter_signatureRequestsWithoutSessionID
  | Counter_blockchainErrors
  | Counter_duplicateRequests
  | Counter_responses_200

datatype event =
    Inc counter
  | AuthenticateUser
  | GetRemainingQueryCount
  | GetBlockNumber
  | GetPrivateKey
  | ComputeBlindedSignature
  | GetRequestExists
  | StoreRequest
  | IncrementQueryCount

text \<open>
  A thrown exception or a rejected promise carries a reason. The result of a collaborator
  is \<open>Inr v\<close> when it yields the value \<open>v\<close> and \<open>Inl reason\<close> when it fails, where failing
  means:
  \<^item> for the two reads, \<^verbatim>\<open>getRemainingQueryCount\<close> and \<^verbatim>\<open>getBlockNumber\<close>, whose promises
    the handler hands to \<^verbatim>\<open>Promise.allSettled\<close> (lines 86-91): the promise is settled with
    the status \<^verbatim>\<open>rejected\<close>, the status that lines 97-109 test. Both calls are taken to
    return a promise, as the handler uses them; a read that throws before it has returned
    its promise is not among the inputs of the model;
  \<^item> for every other collaborator: the call throws, or the promise the handler awaits is
    rejected. The handler has one catch block for both (lines 181-190).
\<close>

type_synonym exn = string

text \<open>
  The collaborators. The five validity predicates are pure. \<open>getPrivateKey\<close> stands for
  \<^verbatim>\<open>getKeyProvider().getPrivateKey()\<close>. \<open>getBlockNumber\<close>, \<open>getPrivateKey\<close> and
  \<open>getVersion\<close> take no argument, so they are the result itself. The source of the
  collaborators is in other modules. Each result type has the case \<open>Inl\<close>, so that the
  model shows what the handler itself does with a failure; which failures a collaborator
  can produce is its own contract.
\<close>

record env =
  hasValidAccountParam :: "GetBlindedMessagePartialSigRequest \<Rightarrow> bool"
  hasValidQueryPhoneNumberParam :: "GetBlindedMessagePartialSigRequest \<Rightarrow> bool"
  phoneNumberHashIsValidIfExists :: "GetBlindedMessagePartialSigRequest \<Rightarrow> bool"
  isBodyReasonablySized :: "GetBlindedMessagePartialSigRequest \<Rightarrow> bool"
  hasValidTimestamp :: "GetBlindedMessagePartialSigRequest \<Rightarrow> bool"
  authenticateUser :: "GetBlindedMessagePartialSigRequest \<Rightarrow> exn + bool"
  getRemainingQueryCount :: "string \<Rightarrow> string option \<Rightarrow> exn + query_count"
  getBlockNumber :: "exn + int"
  getPrivateKey :: "exn + string"
  computeBlindedSignature :: "string \<Rightarrow> string \<Rightarrow> exn + string"
  getRequestExists :: "GetBlindedMessagePartialSigRequest \<Rightarrow> exn + bool"
  storeRequest :: "GetBlindedMessagePartialSigRequest \<Rightarrow> exn + bool"
  incrementQueryCount :: "string \<Rightarrow> exn + bool"
  getVersion :: string
  messageText :: "message \<Rightarrow> string"

text \<open>
  The local variables of the handler that are assigned after their declaration
  (\<^verbatim>\<open>errorMsgs\<close> line 79, the others lines 93-96).
\<close>

record locals =
  errorMsgs :: "message list"
  var_totalQuota :: int
  var_performedQueryCount :: int
  var_blockNumber :: int
  hadBlockchainError :: bool

subsection \<open>Effects\<close>

text \<open>
  A piece of the handler yields the events it performed and either the exception that
  left it or its value. \<open>invoke ev res k\<close> is a call (awaited or not) of the collaborator
  \<open>ev\<close> whose result is \<open>res\<close>, at a place where the handler has no try block of its own:
  an exception leaves the enclosing code, a value is passed to the rest \<open>k\<close>.
  \<open>emit evs m\<close> performs the events \<open>evs\<close> before \<open>m\<close>.
\<close>

type_synonym 'a effect = "event list \<times> (exn + 'a)"

definition invoke :: "event \<Rightarrow> exn + 'a \<Rightarrow> ('a \<Rightarrow> 'b effect) \<Rightarrow> 'b effect" where
  "invoke ev res k =
     (case res of
        Inl e \<Rightarrow> ([ev], Inl e)
      | Inr v \<Rightarrow> (case k v of (t, r) \<Rightarrow> (ev # t, r)))"

definition emit :: "event list \<Rightarrow> 'a effect \<Rightarrow> 'a effect" where
  "emit evs m = (case m of (t, r) \<Rightarrow> (evs @ t, r))"

text \<open>\<^verbatim>\<open>Array.prototype.join\<close>.\<close>

fun join :: "string \<Rightarrow> string list \<Rightarrow> string" where
  "join sep [] = []"
| "join sep [x] = x"
| "join sep (x # y # ys) = x @ sep @ join sep (y # ys)"

subsection \<open>The handler\<close>

text \<open>Lines 193-201.\<close>

definition isValidGetSignatureInput :: "env \<Rightarrow> GetBlindedMessagePartialSigRequest \<Rightarrow> bool" where
  "isValidGetSignatureInput env requestBody \<longleftrightarrow>
     hasValidAccountParam env requestBody \<and>
     hasValidQueryPhoneNumberParam env requestBody \<and>
     phoneNumberHashIsValidIfExists env requestBody \<and>
     isBodyReasonablySized env requestBody \<and>
     hasValidTimestamp env requestBody"

text \<open>
  Lines 79 and 93-114: the two settled promises are turned into the local variables.
  \<open>Inl\<close> is a promise with status \<^verbatim>\<open>rejected\<close>, \<open>Inr\<close> one with status \<^verbatim>\<open>fulfilled\<close>.
\<close>

definition settled :: "exn + query_count \<Rightarrow> exn + int \<Rightarrow> event list \<times> locals" where
  "settled queryCount blockNum =
     (let l0 = \<lparr>errorMsgs = [], var_totalQuota = - 1, var_performedQueryCount = - 1,
                var_blockNumber = - 1, hadBlockchainError = False\<rparr>;
          l1 = (case queryCount of
                  Inr v \<Rightarrow> l0\<lparr>var_performedQueryCount := value_performedQueryCount v,
                              var_totalQuota := value_totalQuota v\<rparr>
                | Inl reason \<Rightarrow> l0\<lparr>hadBlockchainError := True\<rparr>);
          l2 = (case blockNum of
                  Inr v \<Rightarrow> l1\<lparr>var_blockNumber := v\<rparr>
                | Inl reason \<Rightarrow> l1\<lparr>hadBlockchainError := True\<rparr>)
      in if hadBlockchainError l2
         then ([Inc Counter_blockchainErrors],
               l2\<lparr>errorMsgs := errorMsgs l2 @ [CONTRACT_GET_FAILURE]\<rparr>)
         else ([], l2))"

text \<open>The condition of line 116.\<close>

definition quotaExceeded :: "exn + query_count \<Rightarrow> locals \<Rightarrow> bool" where
  "quotaExceeded queryCount l \<longleftrightarrow>
     \<not> isl queryCount \<and> var_performedQueryCount l \<ge> var_totalQuota l"

text \<open>
  Lines 138-160: the duplicate check and the two writes. The result is the local
  variables as they stand at line 161.
\<close>

definition dbOps :: "env \<Rightarrow> GetBlindedMessagePartialSigRequest \<Rightarrow> locals \<Rightarrow> locals effect" where
  "dbOps env body l =
     invoke GetRequestExists (getRequestExists env body) (\<lambda>requestExists.
       if requestExists
       then ([Inc Counter_duplicateRequests],
             Inr (l\<lparr>errorMsgs := errorMsgs l @ [DUPLICATE_REQUEST_TO_GET_PARTIAL_SIG]\<rparr>))
       else
         invoke StoreRequest (storeRequest env body) (\<lambda>stored.
           let l1 = (if \<not> stored
                     then l\<lparr>errorMsgs := errorMsgs l @ [FAILURE_TO_STORE_REQUEST]\<rparr>
                     else l)
           in invoke IncrementQueryCount (incrementQueryCount env (account body)) (\<lambda>incremented.
                if \<not> incremented
                then ([], Inr (l1\<lparr>errorMsgs :=
                                    errorMsgs l1 @ [FAILURE_TO_INCREMENT_QUERY_COUNT]\<rparr>))
                else ([], Inr (l1\<lparr>var_performedQueryCount :=
                                    var_performedQueryCount l1 + 1\<rparr>)))))"

text \<open>Lines 162-177: the body of the 200 response.\<close>

definition signMessageResponse :: "env \<Rightarrow> string \<Rightarrow> locals \<Rightarrow> SignMessageResponse" where
  "signMessageResponse env sig l =
     (let signMessageResponseSuccess =
            \<lparr>success = (length (errorMsgs l) = 0),
             signature = sig,
             version = getVersion env,
             performedQueryCount = var_performedQueryCount l,
             totalQuota = var_totalQuota l,
             blockNumber = var_blockNumber l,
             error = None\<rparr>
      in if length (errorMsgs l) \<noteq> 0
         then signMessageResponseSuccess
                \<lparr>error := Some (join '', '' (map (messageText env) (errorMsgs l)))\<rparr>
         else signMessageResponseSuccess)"

text \<open>
  Lines 52-160, the part of the try block before the response is assembled. It either
  returns early, having sent a response, or reaches line 161 with a signature and the
  local variables; or an exception leaves it.
\<close>

datatype flow =
    Return response
  | Proceed string locals

definition tryBlock :: "env \<Rightarrow> GetBlindedMessagePartialSigRequest \<Rightarrow> flow effect" where
  "tryBlock env body =
     (if \<not> isValidGetSignatureInput env body
      then ([], Inr (Return (RespondWithError 400 INVALID_INPUT None)))
      else
        invoke AuthenticateUser (authenticateUser env body) (\<lambda>authenticated.
          if \<not> authenticated
          then ([], Inr (Return (RespondWithError 401 UNAUTHENTICATED_USER None)))
          else
            let queryCount = getRemainingQueryCount env (account body) (hashedPhoneNumber body);
                blockNum = getBlockNumber env;
                (evs, l) = settled queryCount blockNum
            in emit ([GetRemainingQueryCount, GetBlockNumber] @ evs)
                 (if quotaExceeded queryCount l
                  then ([], Inr (Return (RespondWithError 403 EXCEEDED_QUOTA
                          (Some (var_performedQueryCount l, var_totalQuota l,
                                 var_blockNumber l)))))
                  else
                    invoke GetPrivateKey (getPrivateKey env) (\<lambda>privateKey.
                      invoke ComputeBlindedSignature
                        (computeBlindedSignature env (blindedQueryPhoneNumber body) privateKey)
                        (\<lambda>sig.
                           case dbOps env body l of
                             (t, Inl e) \<Rightarrow> (t, Inl e)
                           | (t, Inr l') \<Rightarrow> (t, Inr (Proceed sig l')))))))"

text \<open>
  Lines 41-48, before the try block: the request counter, and the counter of requests
  without a session identifier. \<^verbatim>\<open>!request.body.sessionID\<close> holds for a missing and for an
  empty session identifier.
\<close>

definition requestReceived :: "GetBlindedMessagePartialSigRequest \<Rightarrow> event list" where
  "requestReceived body =
     Inc Counter_requests #
     (if sessionID body = None \<or> sessionID body = Some []
      then [Inc Counter_signatureRequestsWithoutSessionID] else [])"

text \<open>
  Lines 37-191. An exception that leaves the try block is answered with status 500
  (lines 181-190); otherwise the response is the one sent by an early return, or the
  200 response of lines 178-180.
\<close>

definition handleGetBlindedMessagePartialSig ::
    "env \<Rightarrow> GetBlindedMessagePartialSigRequest \<Rightarrow> event list \<times> response" where
  "handleGetBlindedMessagePartialSig env body =
     (case tryBlock env body of
        (t, Inl err) \<Rightarrow>
          (requestReceived body @ t, RespondWithError 500 UNKNOWN_ERROR None)
      | (t, Inr (Return r)) \<Rightarrow>
          (requestReceived body @ t, r)
      | (t, Inr (Proceed sig l)) \<Rightarrow>
          (requestReceived body @ t @ [Inc Counter_responses_200],
           Json200 (signMessageResponse env sig l)))"

subsection \<open>The contracts of the stores\<close>


subsection \<open>Sample collaborators\<close>

text \<open>
  Concrete collaborators on which the theorems below are instantiated. In \<open>sampleEnv\<close>
  every collaborator succeeds: the account has used 2 of 10 queries, the chain is at
  block 500 and the request has not been seen before. The other environments change
  up to three collaborators each.
\<close>

fun sampleText :: "message \<Rightarrow> string" where
  "sampleText INVALID_INPUT = ''INVALID_INPUT''"
| "sampleText UNAUTHENTICATED_USER = ''UNAUTHENTICATED_USER''"
| "sampleText EXCEEDED_QUOTA = ''EXCEEDED_QUOTA''"
| "sampleText DUPLICATE_REQUEST_TO_GET_PARTIAL_SIG = ''DUPLICATE_REQUEST''"
| "sampleText CONTRACT_GET_FAILURE = ''CONTRACT_GET_FAILURE''"
| "sampleText FAILURE_TO_STORE_REQUEST = ''FAILURE_TO_STORE_REQUEST''"
| "sampleText FAILURE_TO_INCREMENT_QUERY_COUNT = ''FAILURE_TO_INCREMENT_QUERY_COUNT''"
| "sampleText UNKNOWN_ERROR = ''UNKNOWN_ERROR''"

definition sampleBody :: GetBlindedMessagePartialSigRequest where
  "sampleBody =
     \<lparr>account = ''0xAA'', blindedQueryPhoneNumber = ''B1'', hashedPhoneNumber = None,
      timestamp = Some 1600000000, sessionID = Some ''s1''\<rparr>"

definition sampleEnv :: env where
  "sampleEnv =
     \<lparr>hasValidAccountParam = (\<lambda>b. True),
      hasValidQueryPhoneNumberParam = (\<lambda>b. True),
      phoneNumberHashIsValidIfExists = (\<lambda>b. True),
      isBodyReasonablySized = (\<lambda>b. True),
      hasValidTimestamp = (\<lambda>b. True),
      authenticateUser = (\<lambda>b. Inr True),
      getRemainingQueryCount =
        (\<lambda>a h. Inr \<lparr>value_performedQueryCount = 2, value_totalQuota = 10\<rparr>),
      getBlockNumber = Inr 500,
      getPrivateKey = Inr ''k'',
      computeBlindedSignature = (\<lambda>m k. Inr (''S:'' @ m @ '':'' @ k)),
      getRequestExists = (\<lambda>b. Inr False),
      storeRequest = (\<lambda>b. Inr True),
      incrementQueryCount = (\<lambda>a. Inr True),
      getVersion = ''1.1.0'',
      messageText = sampleText\<rparr>"

definition quotaUsedUpEnv :: env where
  "quotaUsedUpEnv =
     sampleEnv\<lparr>getRemainingQueryCount :=
       (\<lambda>a h. Inr \<lparr>value_performedQueryCount = 10, value_totalQuota = 10\<rparr>)\<rparr>"

definition unauthenticatedEnv :: env where
  "unauthenticatedEnv = sampleEnv\<lparr>authenticateUser := (\<lambda>b. Inr False)\<rparr>"

definition quotaDownEnv :: env where
  "quotaDownEnv = sampleEnv\<lparr>getRemainingQueryCount := (\<lambda>a h. Inl ''quota lookup failed'')\<rparr>"

definition quotaDownDuplicateEnv :: env where
  "quotaDownDuplicateEnv =
     sampleEnv\<lparr>getRemainingQueryCount := (\<lambda>a h. Inl ''quota lookup failed''),
               getRequestExists := (\<lambda>b. Inr True)\<rparr>"

definition chainDownEnv :: env where
  "chainDownEnv = sampleEnv\<lparr>getBlockNumber := Inl ''no block number''\<rparr>"

definition allReadsDownEnv :: env where
  "allReadsDownEnv =
     sampleEnv\<lparr>getRemainingQueryCount := (\<lambda>a h. Inl ''quota lookup failed''),
               getBlockNumber := Inl ''no block number''\<rparr>"

definition duplicateEnv :: env where
  "duplicateEnv = sampleEnv\<lparr>getRequestExists := (\<lambda>b. Inr True)\<rparr>"

definition writesFailEnv :: env where
  "writesFailEnv =
     sampleEnv\<lparr>storeRequest := (\<lambda>b. Inr False), incrementQueryCount := (\<lambda>a. Inr False)\<rparr>"

definition degradedEnv :: env where
  "degradedEnv =
     sampleEnv\<lparr>getBlockNumber := Inl ''no block number'', storeRequest := (\<lambda>b. Inr False),
               incrementQueryCount := (\<lambda>a. Inr False)\<rparr>"

definition chainDownDuplicateEnv :: env where
  "chainDownDuplicateEnv =
     sampleEnv\<lparr>getBlockNumber := Inl ''no block number'',
               getRequestExists := (\<lambda>b. Inr True)\<rparr>"

definition quotaUsedUpDuplicateEnv :: env where
  "quotaUsedUpDuplicateEnv =
     sampleEnv\<lparr>getRemainingQueryCount :=
                 (\<lambda>a h. Inr \<lparr>value_performedQueryCount = 10, value_totalQuota = 10\<rparr>),
               getRequestExists := (\<lambda>b. Inr True)\<rparr>"



section \<open>Properties of the handler\<close>

subsection \<open>Evaluation rules\<close>

lemmas handler_defs =
  handleGetBlindedMessagePartialSig_def requestReceived_def tryBlock_def
  isValidGetSignatureInput_def invoke_def emit_def settled_def quotaExceeded_def dbOps_def
  signMessageResponse_def Let_def

text \<open>The local variables after lines 93-114, for each outcome of the two reads.\<close>

lemma settled_eq:
  "settled q b =
     ((if isl q \<or> isl b then [Inc Counter_blockchainErrors] else []),
      \<lparr>errorMsgs = (if isl q \<or> isl b then [CONTRACT_GET_FAILURE] else []),
       var_totalQuota = (case q of Inl reason \<Rightarrow> - 1 | Inr v \<Rightarrow> value_totalQuota v),
       var_performedQueryCount =
         (case q of Inl reason \<Rightarrow> - 1 | Inr v \<Rightarrow> value_performedQueryCount v),
       var_blockNumber = (case b of Inl reason \<Rightarrow> - 1 | Inr n \<Rightarrow> n),
       hadBlockchainError = (isl q \<or> isl b)\<rparr>)"
  by (cases q; cases b) (simp_all add: settled_def)

text \<open>The result and the events of the two combinators.\<close>

lemma snd_invoke:
  "snd (invoke ev res k) = (case res of Inl e \<Rightarrow> Inl e | Inr v \<Rightarrow> snd (k v))"
  by (simp add: invoke_def split: sum.splits prod.splits)

lemma fst_invoke:
  "fst (invoke ev res k) = ev # (case res of Inl e \<Rightarrow> [] | Inr v \<Rightarrow> fst (k v))"
  by (simp add: invoke_def split: sum.splits prod.splits)

lemma snd_emit: "snd (emit evs m) = snd m"
  by (simp add: emit_def split: prod.splits)

lemma fst_emit: "fst (emit evs m) = evs @ fst m"
  by (simp add: emit_def split: prod.splits)

text \<open>What lines 138-160 leave behind, without the events.\<close>

lemma snd_dbOps:
  "snd (dbOps env body l) =
     (case getRequestExists env body of
        Inl e \<Rightarrow> Inl e
      | Inr dup \<Rightarrow>
          if dup then Inr (l\<lparr>errorMsgs := errorMsgs l @ [DUPLICATE_REQUEST_TO_GET_PARTIAL_SIG]\<rparr>)
          else (case storeRequest env body of
                  Inl e \<Rightarrow> Inl e
                | Inr st \<Rightarrow>
                    (case incrementQueryCount env (account body) of
                       Inl e \<Rightarrow> Inl e
                     | Inr inc \<Rightarrow>
                         Inr (l\<lparr>errorMsgs := errorMsgs l @
                                  (if st then [] else [FAILURE_TO_STORE_REQUEST]) @
                                  (if inc then [] else [FAILURE_TO_INCREMENT_QUERY_COUNT]),
                                var_performedQueryCount :=
                                  var_performedQueryCount l + (if inc then 1 else 0)\<rparr>))))"
  by (cases "getRequestExists env body"; cases "storeRequest env body";
      cases "incrementQueryCount env (account body)")
     (simp_all add: dbOps_def snd_invoke Let_def)

lemma dbOps_result:
  assumes "dbOps env body l0 = (t0, Inr l)"
  shows "\<exists>dup st inc.
           getRequestExists env body = Inr dup \<and>
           (\<not> dup \<longrightarrow> storeRequest env body = Inr st \<and>
                     incrementQueryCount env (account body) = Inr inc) \<and>
           l = l0\<lparr>errorMsgs := errorMsgs l0 @
                    (if dup then [DUPLICATE_REQUEST_TO_GET_PARTIAL_SIG]
                     else (if st then [] else [FAILURE_TO_STORE_REQUEST]) @
                          (if inc then [] else [FAILURE_TO_INCREMENT_QUERY_COUNT])),
                  var_performedQueryCount :=
                    var_performedQueryCount l0 + (if \<not> dup \<and> inc then 1 else 0)\<rparr> \<and>
           t0 = GetRequestExists #
                (if dup then [Inc Counter_duplicateRequests]
                 else [StoreRequest, IncrementQueryCount])"
  using assms
  by (auto simp add: dbOps_def invoke_def Let_def split: sum.splits if_splits)

text \<open>The outcome of the try block, without the events.\<close>

lemma snd_tryBlock:
  "snd (tryBlock env body) =
     (if \<not> isValidGetSignatureInput env body
      then Inr (Return (RespondWithError 400 INVALID_INPUT None))
      else
        (case authenticateUser env body of
           Inl e \<Rightarrow> Inl e
         | Inr authenticated \<Rightarrow>
             if \<not> authenticated
             then Inr (Return (RespondWithError 401 UNAUTHENTICATED_USER None))
             else
               let queryCount = getRemainingQueryCount env (account body) (hashedPhoneNumber body);
                   l = snd (settled queryCount (getBlockNumber env))
               in if quotaExceeded queryCount l
                  then Inr (Return (RespondWithError 403 EXCEEDED_QUOTA
                         (Some (var_performedQueryCount l, var_totalQuota l, var_blockNumber l))))
                  else
                    (case getPrivateKey env of
                       Inl e \<Rightarrow> Inl e
                     | Inr privateKey \<Rightarrow>
                         (case computeBlindedSignature env (blindedQueryPhoneNumber body)
                                 privateKey of
                            Inl e \<Rightarrow> Inl e
                          | Inr sig \<Rightarrow>
                              (case snd (dbOps env body l) of
                                 Inl e \<Rightarrow> Inl e
                               | Inr l' \<Rightarrow> Inr (Proceed sig l'))))))"
  by (cases "authenticateUser env body"; cases "getPrivateKey env";
      cases "snd (dbOps env body (snd (settled
        (getRemainingQueryCount env (account body) (hashedPhoneNumber body))
        (getBlockNumber env))))")
     (simp_all add: tryBlock_def snd_invoke snd_emit Let_def split_beta
        cong: sum.case_cong if_cong)

lemma snd_handler:
  "snd (handleGetBlindedMessagePartialSig env body) =
     (case snd (tryBlock env body) of
        Inl err \<Rightarrow> RespondWithError 500 UNKNOWN_ERROR None
      | Inr (Return r) \<Rightarrow> r
      | Inr (Proceed sig l) \<Rightarrow> Json200 (signMessageResponse env sig l))"
  by (simp add: handleGetBlindedMessagePartialSig_def split: sum.splits prod.splits flow.splits)

text \<open>The events of a request that passed the quota gate.\<close>

lemma fst_tryBlock_passed:
  assumes "isValidGetSignatureInput env body"
    and "authenticateUser env body = Inr True"
    and "getRemainingQueryCount env (account body) (hashedPhoneNumber body) = q"
    and "\<not> quotaExceeded q (snd (settled q (getBlockNumber env)))"
  shows "fst (tryBlock env body) =
           AuthenticateUser # GetRemainingQueryCount # GetBlockNumber #
           fst (settled q (getBlockNumber env)) @
           GetPrivateKey #
           (case getPrivateKey env of
              Inl e \<Rightarrow> []
            | Inr privateKey \<Rightarrow>
                ComputeBlindedSignature #
                (case computeBlindedSignature env (blindedQueryPhoneNumber body) privateKey of
                   Inl e \<Rightarrow> []
                 | Inr sig \<Rightarrow> fst (dbOps env body (snd (settled q (getBlockNumber env))))))"
  using assms
  by (cases "getPrivateKey env")
     (simp_all add: tryBlock_def fst_invoke fst_emit Let_def split_beta
        split: sum.splits prod.splits)

lemma fst_handler:
  "fst (handleGetBlindedMessagePartialSig env body) =
     requestReceived body @ fst (tryBlock env body) @
     (case snd (tryBlock env body) of
        Inr (Proceed sig l) \<Rightarrow> [Inc Counter_responses_200]
      | _ \<Rightarrow> [])"
  by (simp add: handleGetBlindedMessagePartialSig_def split: sum.splits prod.splits flow.splits)

text \<open>
  The try block sends error responses only, and a 200 response comes from a try block
  that ran to its end.
\<close>

lemma tryBlock_Return:
  assumes "tryBlock env body = (t, Inr (Return r))"
  shows "\<exists>status m details. r = RespondWithError status m details"
  using assms
  by (auto simp add: tryBlock_def invoke_def emit_def Let_def
      split: sum.splits prod.splits if_splits)

lemma tryBlock_Proceed:
  assumes "tryBlock env body = (t, Inr (Proceed sig l))"
    and "getRemainingQueryCount env (account body) (hashedPhoneNumber body) = q"
    and "getBlockNumber env = b"
  shows "isValidGetSignatureInput env body \<and>
         authenticateUser env body = Inr True \<and>
         \<not> quotaExceeded q (snd (settled q b)) \<and>
         (\<exists>key. getPrivateKey env = Inr key \<and>
                computeBlindedSignature env (blindedQueryPhoneNumber body) key = Inr sig) \<and>
         (\<exists>t0. dbOps env body (snd (settled q b)) = (t0, Inr l) \<and>
               t = AuthenticateUser # GetRemainingQueryCount # GetBlockNumber #
                   fst (settled q b) @ GetPrivateKey # ComputeBlindedSignature # t0)"
  using assms
  by (auto simp add: tryBlock_def invoke_def emit_def Let_def
      split: sum.splits prod.splits if_splits)

lemma handler_Json200:
  assumes "handleGetBlindedMessagePartialSig env body = (t, Json200 r)"
  shows "\<exists>t' sig l.
           tryBlock env body = (t', Inr (Proceed sig l)) \<and>
           t = requestReceived body @ t' @ [Inc Counter_responses_200] \<and>
           r = signMessageResponse env sig l"
  using assms tryBlock_Return [of env body]
  by (auto simp add: handleGetBlindedMessagePartialSig_def
      split: sum.splits prod.splits flow.splits)

text \<open>The local variables at line 161, in terms of what the collaborators returned.\<close>

lemma proceed_locals:
  assumes "tryBlock env body = (t, Inr (Proceed sig l))"
    and "getRemainingQueryCount env (account body) (hashedPhoneNumber body) = q"
    and "getBlockNumber env = b"
  shows "\<exists>dup st inc.
           getRequestExists env body = Inr dup \<and>
           (\<not> dup \<longrightarrow> storeRequest env body = Inr st \<and>
                     incrementQueryCount env (account body) = Inr inc) \<and>
           errorMsgs l =
             (if isl q \<or> isl b then [CONTRACT_GET_FAILURE] else []) @
             (if dup then [DUPLICATE_REQUEST_TO_GET_PARTIAL_SIG]
              else (if st then [] else [FAILURE_TO_STORE_REQUEST]) @
                   (if inc then [] else [FAILURE_TO_INCREMENT_QUERY_COUNT])) \<and>
           var_totalQuota l = (case q of Inl reason \<Rightarrow> - 1 | Inr v \<Rightarrow> value_totalQuota v) \<and>
           var_performedQueryCount l =
             (case q of Inl reason \<Rightarrow> - 1 | Inr v \<Rightarrow> value_performedQueryCount v) +
             (if \<not> dup \<and> inc then 1 else 0) \<and>
           var_blockNumber l = (case b of Inl reason \<Rightarrow> - 1 | Inr n \<Rightarrow> n)"
proof -
  from tryBlock_Proceed [OF assms] obtain t0
    where db: "dbOps env body (snd (settled q b)) = (t0, Inr l)"
    by blast
  from dbOps_result [OF db] obtain dup st inc
    where ex: "getRequestExists env body = Inr dup"
      and wr: "\<not> dup \<longrightarrow> storeRequest env body = Inr st \<and>
                 incrementQueryCount env (account body) = Inr inc"
      and l: "l = (snd (settled q b))\<lparr>errorMsgs := errorMsgs (snd (settled q b)) @
                    (if dup then [DUPLICATE_REQUEST_TO_GET_PARTIAL_SIG]
                     else (if st then [] else [FAILURE_TO_STORE_REQUEST]) @
                          (if inc then [] else [FAILURE_TO_INCREMENT_QUERY_COUNT])),
                  var_performedQueryCount :=
                    var_performedQueryCount (snd (settled q b)) +
                    (if \<not> dup \<and> inc then 1 else 0)\<rparr>"
    by blast
  show ?thesis
    apply (rule exI [of _ dup], rule exI [of _ st], rule exI [of _ inc])
    using ex wr by (simp add: l settled_eq)
qed

text \<open>The fields of a 200 response, in terms of what the collaborators returned.\<close>

lemma json_fields:
  assumes "handleGetBlindedMessagePartialSig env body = (t, Json200 r)"
    and "getRemainingQueryCount env (account body) (hashedPhoneNumber body) = q"
    and "getBlockNumber env = b"
  shows "\<exists>dup st inc tags.
           getRequestExists env body = Inr dup \<and>
           (\<not> dup \<longrightarrow> storeRequest env body = Inr st \<and>
                     incrementQueryCount env (account body) = Inr inc) \<and>
           tags =
             (if isl q \<or> isl b then [CONTRACT_GET_FAILURE] else []) @
             (if dup then [DUPLICATE_REQUEST_TO_GET_PARTIAL_SIG]
              else (if st then [] else [FAILURE_TO_STORE_REQUEST]) @
                   (if inc then [] else [FAILURE_TO_INCREMENT_QUERY_COUNT])) \<and>
           success r = (tags = []) \<and>
           error r = (if tags = [] then None
                      else Some (join '', '' (map (messageText env) tags))) \<and>
           totalQuota r = (case q of Inl reason \<Rightarrow> - 1 | Inr v \<Rightarrow> value_totalQuota v) \<and>
           performedQueryCount r =
             (case q of Inl reason \<Rightarrow> - 1 | Inr v \<Rightarrow> value_performedQueryCount v) +
             (if \<not> dup \<and> inc then 1 else 0) \<and>
           blockNumber r = (case b of Inl reason \<Rightarrow> - 1 | Inr n \<Rightarrow> n)"
proof -
  from handler_Json200 [OF assms(1)] obtain t' sig l
    where tb: "tryBlock env body = (t', Inr (Proceed sig l))"
      and r: "r = signMessageResponse env sig l"
    by blast
  from proceed_locals [OF tb assms(2) assms(3)] obtain dup st inc
    where ex: "getRequestExists env body = Inr dup"
      and wr: "\<not> dup \<longrightarrow> storeRequest env body = Inr st \<and>
                 incrementQueryCount env (account body) = Inr inc"
      and msgs: "errorMsgs l =
             (if isl q \<or> isl b then [CONTRACT_GET_FAILURE] else []) @
             (if dup then [DUPLICATE_REQUEST_TO_GET_PARTIAL_SIG]
              else (if st then [] else [FAILURE_TO_STORE_REQUEST]) @
                   (if inc then [] else [FAILURE_TO_INCREMENT_QUERY_COUNT]))"
      and tq: "var_totalQuota l =
             (case q of Inl reason \<Rightarrow> - 1 | Inr v \<Rightarrow> value_totalQuota v)"
      and pqc: "var_performedQueryCount l =
             (case q of Inl reason \<Rightarrow> - 1 | Inr v \<Rightarrow> value_performedQueryCount v) +
             (if \<not> dup \<and> inc then 1 else 0)"
      and bn: "var_blockNumber l = (case b of Inl reason \<Rightarrow> - 1 | Inr n \<Rightarrow> n)"
    by blast
  have "success r = (errorMsgs l = [])"
    and "error r = (if errorMsgs l = [] then None
                    else Some (join '', '' (map (messageText env) (errorMsgs l))))"
    and "totalQuota r = var_totalQuota l"
    and "performedQueryCount r = var_performedQueryCount l"
    and "blockNumber r = var_blockNumber l"
    by (simp_all add: r signMessageResponse_def Let_def)
  with ex wr msgs tq pqc bn show ?thesis
    by (intro exI [of _ dup] exI [of _ st] exI [of _ inc] exI [of _ "errorMsgs l"]) simp
qed

subsection \<open>The quota gate\<close>

text \<open>
  C1. A valid, authenticated request whose quota lookup succeeded with
  \<open>performedQueryCount \<ge> totalQuota\<close> (equality included) is answered with status 403 and
  the message \<open>EXCEEDED_QUOTA\<close>, together with the looked-up count and quota and the block
  number (\<open>-1\<close> when the chain-height read failed). The key provider, the signature
  engine, the duplicate check, the store write and the counter increment are not called.
\<close>

theorem quota_gate_rejects:
  assumes "isValidGetSignatureInput env body"
    and "authenticateUser env body = Inr True"
    and "getRemainingQueryCount env (account body) (hashedPhoneNumber body) = Inr q"
    and "value_performedQueryCount q \<ge> value_totalQuota q"
  shows "snd (handleGetBlindedMessagePartialSig env body) =
           RespondWithError 403 EXCEEDED_QUOTA
             (Some (value_performedQueryCount q, value_totalQuota q,
                    case getBlockNumber env of Inl reason \<Rightarrow> - 1 | Inr n \<Rightarrow> n)) \<and>
         set (fst (handleGetBlindedMessagePartialSig env body)) \<inter>
           {GetPrivateKey, ComputeBlindedSignature, GetRequestExists, StoreRequest,
            IncrementQueryCount} = {}"
  using assms
  by (simp add: handleGetBlindedMessagePartialSig_def requestReceived_def tryBlock_def
      invoke_def emit_def settled_def quotaExceeded_def split: sum.splits)

theorem quota_gate_rejects_witness:
  "isValidGetSignatureInput quotaUsedUpEnv sampleBody \<and>
   authenticateUser quotaUsedUpEnv sampleBody = Inr True \<and>
   getRemainingQueryCount quotaUsedUpEnv (account sampleBody) (hashedPhoneNumber sampleBody) =
     Inr \<lparr>value_performedQueryCount = 10, value_totalQuota = 10\<rparr> \<and>
   snd (handleGetBlindedMessagePartialSig quotaUsedUpEnv sampleBody) =
     RespondWithError 403 EXCEEDED_QUOTA (Some (10, 10, 500)) \<and>
   set (fst (handleGetBlindedMessagePartialSig quotaUsedUpEnv sampleBody)) \<inter>
     {GetPrivateKey, ComputeBlindedSignature, GetRequestExists, StoreRequest,
      IncrementQueryCount} = {}"
  using quota_gate_rejects [of quotaUsedUpEnv sampleBody
      "\<lparr>value_performedQueryCount = 10, value_totalQuota = 10\<rparr>"]
  by (simp add: quotaUsedUpEnv_def sampleEnv_def sampleBody_def isValidGetSignatureInput_def)

subsection \<open>The authentication gate\<close>

text \<open>
  C9. A valid request for which the authenticator returns false is answered with status
  401 and the message \<open>UNAUTHENTICATED_USER\<close>. Besides the request counters, the call of
  the authenticator is the only thing the handler does: no quota lookup, no chain-height
  read, no signature, no access to the request store or to the query counter.
\<close>

theorem unauthenticated_stops:
  assumes "isValidGetSignatureInput env body"
    and "authenticateUser env body = Inr False"
  shows "handleGetBlindedMessagePartialSig env body =
           (requestReceived body @ [AuthenticateUser],
            RespondWithError 401 UNAUTHENTICATED_USER None)"
  using assms
  by (simp add: handleGetBlindedMessagePartialSig_def tryBlock_def invoke_def)

theorem unauthenticated_stops_witness:
  "isValidGetSignatureInput unauthenticatedEnv sampleBody \<and>
   authenticateUser unauthenticatedEnv sampleBody = Inr False \<and>
   handleGetBlindedMessagePartialSig unauthenticatedEnv sampleBody =
     ([Inc Counter_requests, AuthenticateUser],
      RespondWithError 401 UNAUTHENTICATED_USER None)"
  using unauthenticated_stops [of unauthenticatedEnv sampleBody]
  by (simp add: unauthenticatedEnv_def sampleEnv_def sampleBody_def
      isValidGetSignatureInput_def requestReceived_def)

subsection \<open>Duplicate requests\<close>

text \<open>
  C3, as the specification states it, fails: the quota gate of lines 116-128 comes
  before the duplicate check of line 138. Here the request is in the store and the
  account has used 10 of 10 queries; the response is the 403 response, without a
  signature and without the duplicate-request tag, and the duplicate check is not reached.
\<close>

theorem duplicate_at_quota_counterexample:
  "getRequestExists quotaUsedUpDuplicateEnv sampleBody = Inr True \<and>
   handleGetBlindedMessagePartialSig quotaUsedUpDuplicateEnv sampleBody =
     ([Inc Counter_requests, AuthenticateUser, GetRemainingQueryCount, GetBlockNumber],
      RespondWithError 403 EXCEEDED_QUOTA (Some (10, 10, 500)))"
  by (simp add: quotaUsedUpDuplicateEnv_def sampleEnv_def sampleBody_def handler_defs)

text \<open>
  C3, amended. For every request whose fingerprint is in the request store, the whole
  call has neither a store write nor a counter increment. When the duplicate check finds
  the request, lines 138-160 change nothing but the list of diagnostic tags, to which the
  duplicate-request tag is appended: the locally held performedQueryCount stays as it
  was. When the request reaches the duplicate check (it is valid and authenticated, the
  quota gate lets it pass, and the key provider and the signature engine return), the
  response is the 200 response with the computed signature, the performedQueryCount of
  the lookup (\<open>-1\<close> if the lookup failed), \<open>success = false\<close> and an \<open>error\<close> field that
  ends with the duplicate-request tag.
\<close>

theorem duplicate_request_not_recorded:
  assumes "getRequestExists env body = Inr True"
  shows "dbOps env body l =
           ([GetRequestExists, Inc Counter_duplicateRequests],
            Inr (l\<lparr>errorMsgs := errorMsgs l @ [DUPLICATE_REQUEST_TO_GET_PARTIAL_SIG]\<rparr>)) \<and>
         StoreRequest \<notin> set (fst (handleGetBlindedMessagePartialSig env body)) \<and>
         IncrementQueryCount \<notin> set (fst (handleGetBlindedMessagePartialSig env body)) \<and>
         (isValidGetSignatureInput env body \<and>
          authenticateUser env body = Inr True \<and>
          (\<forall>q. getRemainingQueryCount env (account body) (hashedPhoneNumber body) = Inr q \<longrightarrow>
               value_performedQueryCount q < value_totalQuota q) \<and>
          getPrivateKey env = Inr key \<and>
          computeBlindedSignature env (blindedQueryPhoneNumber body) key = Inr sig \<longrightarrow>
          (\<exists>r. snd (handleGetBlindedMessagePartialSig env body) = Json200 r \<and>
               signature r = sig \<and>
               success r = False \<and>
               performedQueryCount r =
                 (case getRemainingQueryCount env (account body) (hashedPhoneNumber body) of
                    Inl reason \<Rightarrow> - 1 | Inr q \<Rightarrow> value_performedQueryCount q) \<and>
               error r = Some (join '', '' (map (messageText env)
                 ((if isl (getRemainingQueryCount env (account body) (hashedPhoneNumber body)) \<or>
                      isl (getBlockNumber env)
                   then [CONTRACT_GET_FAILURE] else []) @
                  [DUPLICATE_REQUEST_TO_GET_PARTIAL_SIG])))))"
  using assms
  by (simp add: handleGetBlindedMessagePartialSig_def requestReceived_def tryBlock_def
      isValidGetSignatureInput_def invoke_def emit_def settled_eq quotaExceeded_def dbOps_def
      signMessageResponse_def Let_def split: sum.splits prod.splits)

theorem duplicate_request_not_recorded_witness:
  "getRequestExists duplicateEnv sampleBody = Inr True \<and>
   StoreRequest \<notin> set (fst (handleGetBlindedMessagePartialSig duplicateEnv sampleBody)) \<and>
   IncrementQueryCount \<notin> set (fst (handleGetBlindedMessagePartialSig duplicateEnv sampleBody)) \<and>
   snd (handleGetBlindedMessagePartialSig duplicateEnv sampleBody) =
     Json200 \<lparr>success = False, signature = ''S:B1:k'', version = ''1.1.0'',
              performedQueryCount = 2, totalQuota = 10, blockNumber = 500,
              error = Some ''DUPLICATE_REQUEST''\<rparr>"
  using duplicate_request_not_recorded
      [where env = duplicateEnv and body = sampleBody and key = "''k''" and sig = "''S:B1:k''"]
  by (simp add: duplicateEnv_def sampleEnv_def sampleBody_def handler_defs)

subsection \<open>The two writes\<close>

text \<open>
  C6. For a request that is not a duplicate, lines 144-160 call the store write and then
  the counter increment, whatever the store write returned. A false result of the store
  write appends the tag \<open>FAILURE_TO_STORE_REQUEST\<close> and nothing else, a false result of
  the increment appends the tag \<open>FAILURE_TO_INCREMENT_QUERY_COUNT\<close> and nothing else, and
  the locally held performedQueryCount grows by one exactly when the increment returned
  true. The 200 response is sent in all four cases, with the signature, with that
  performedQueryCount, and with the tags collected so far in its \<open>error\<close> field.
\<close>

theorem writes_attempted_independently:
  assumes "isValidGetSignatureInput env body"
    and "authenticateUser env body = Inr True"
    and "getRemainingQueryCount env (account body) (hashedPhoneNumber body) = queryCount"
    and "\<forall>q. queryCount = Inr q \<longrightarrow> value_performedQueryCount q < value_totalQuota q"
    and "getPrivateKey env = Inr key"
    and "computeBlindedSignature env (blindedQueryPhoneNumber body) key = Inr sig"
    and "getRequestExists env body = Inr False"
    and "storeRequest env body = Inr stored"
    and "incrementQueryCount env (account body) = Inr incremented"
  shows "dbOps env body l =
           ([GetRequestExists, StoreRequest, IncrementQueryCount],
            Inr (l\<lparr>errorMsgs := errorMsgs l @
                     (if stored then [] else [FAILURE_TO_STORE_REQUEST]) @
                     (if incremented then [] else [FAILURE_TO_INCREMENT_QUERY_COUNT]),
                   var_performedQueryCount :=
                     var_performedQueryCount l + (if incremented then 1 else 0)\<rparr>)) \<and>
         StoreRequest \<in> set (fst (handleGetBlindedMessagePartialSig env body)) \<and>
         IncrementQueryCount \<in> set (fst (handleGetBlindedMessagePartialSig env body)) \<and>
         (\<exists>r. snd (handleGetBlindedMessagePartialSig env body) = Json200 r \<and>
              signature r = sig \<and>
              performedQueryCount r =
                (case queryCount of Inl reason \<Rightarrow> - 1 | Inr q \<Rightarrow> value_performedQueryCount q) +
                (if incremented then 1 else 0) \<and>
              error r =
                (if \<not> isl queryCount \<and> \<not> isl (getBlockNumber env) \<and> stored \<and> incremented
                 then None
                 else Some (join '', '' (map (messageText env)
                        ((if isl queryCount \<or> isl (getBlockNumber env)
                          then [CONTRACT_GET_FAILURE] else []) @
                         (if stored then [] else [FAILURE_TO_STORE_REQUEST]) @
                         (if incremented then [] else [FAILURE_TO_INCREMENT_QUERY_COUNT]))))))"
  using assms
  by (auto simp add: handleGetBlindedMessagePartialSig_def requestReceived_def tryBlock_def
      isValidGetSignatureInput_def invoke_def emit_def settled_eq quotaExceeded_def dbOps_def
      signMessageResponse_def Let_def not_le split: sum.splits prod.splits)

theorem writes_attempted_independently_witness:
  "isValidGetSignatureInput writesFailEnv sampleBody \<and>
   authenticateUser writesFailEnv sampleBody = Inr True \<and>
   getPrivateKey writesFailEnv = Inr ''k'' \<and>
   computeBlindedSignature writesFailEnv (blindedQueryPhoneNumber sampleBody) ''k'' =
     Inr ''S:B1:k'' \<and>
   getRequestExists writesFailEnv sampleBody = Inr False \<and>
   storeRequest writesFailEnv sampleBody = Inr False \<and>
   incrementQueryCount writesFailEnv (account sampleBody) = Inr False \<and>
   StoreRequest \<in> set (fst (handleGetBlindedMessagePartialSig writesFailEnv sampleBody)) \<and>
   IncrementQueryCount \<in> set (fst (handleGetBlindedMessagePartialSig writesFailEnv sampleBody)) \<and>
   snd (handleGetBlindedMessagePartialSig writesFailEnv sampleBody) =
     Json200 \<lparr>success = False, signature = ''S:B1:k'', version = ''1.1.0'',
              performedQueryCount = 2, totalQuota = 10, blockNumber = 500,
              error = Some ''FAILURE_TO_STORE_REQUEST, FAILURE_TO_INCREMENT_QUERY_COUNT''\<rparr>"
  using writes_attempted_independently
      [where env = writesFailEnv and body = sampleBody and key = "''k''"
         and sig = "''S:B1:k''" and stored = False and incremented = False
         and queryCount = "Inr \<lparr>value_performedQueryCount = 2, value_totalQuota = 10\<rparr>"]
  by (simp add: writesFailEnv_def sampleEnv_def sampleBody_def handler_defs)

subsection \<open>The 200 response\<close>

text \<open>
  C5. Every 200 response comes from a try block that ran to its end with some list
  \<open>errorMsgs\<close> of collected tags. \<open>success\<close> is true exactly when that list is empty,
  the \<open>error\<close> field is present exactly when \<open>success\<close> is false, and when present it is
  the texts of the collected tags joined with \<open>'', ''\<close> in the order of collection. The
  collected tags are a subsequence of: contract-read failure, duplicate request, store
  failure, increment failure.
\<close>

theorem success_error_invariant:
  assumes "handleGetBlindedMessagePartialSig env body = (t, Json200 r)"
  shows "\<exists>t' sig l.
           tryBlock env body = (t', Inr (Proceed sig l)) \<and>
           success r = (errorMsgs l = []) \<and>
           (error r \<noteq> None) = (\<not> success r) \<and>
           (errorMsgs l \<noteq> [] \<longrightarrow>
              error r = Some (join '', '' (map (messageText env) (errorMsgs l)))) \<and>
           subseq (errorMsgs l)
             [CONTRACT_GET_FAILURE, DUPLICATE_REQUEST_TO_GET_PARTIAL_SIG,
              FAILURE_TO_STORE_REQUEST, FAILURE_TO_INCREMENT_QUERY_COUNT]"
proof -
  from handler_Json200 [OF assms] obtain t' sig l
    where tb: "tryBlock env body = (t', Inr (Proceed sig l))"
      and r: "r = signMessageResponse env sig l"
    by blast
  from proceed_locals [OF tb refl refl] obtain dup st inc
    where msgs: "errorMsgs l =
             (if isl (getRemainingQueryCount env (account body) (hashedPhoneNumber body)) \<or>
                 isl (getBlockNumber env)
              then [CONTRACT_GET_FAILURE] else []) @
             (if dup then [DUPLICATE_REQUEST_TO_GET_PARTIAL_SIG]
              else (if st then [] else [FAILURE_TO_STORE_REQUEST]) @
                   (if inc then [] else [FAILURE_TO_INCREMENT_QUERY_COUNT]))"
    by blast
  have order: "subseq (errorMsgs l)
             [CONTRACT_GET_FAILURE, DUPLICATE_REQUEST_TO_GET_PARTIAL_SIG,
              FAILURE_TO_STORE_REQUEST, FAILURE_TO_INCREMENT_QUERY_COUNT]"
    unfolding msgs by (cases dup; cases st; cases inc) simp_all
  have shape: "success r = (errorMsgs l = []) \<and>
           (error r \<noteq> None) = (\<not> success r) \<and>
           (errorMsgs l \<noteq> [] \<longrightarrow>
              error r = Some (join '', '' (map (messageText env) (errorMsgs l))))"
    by (simp add: r signMessageResponse_def Let_def)
  from tb order shape show ?thesis by blast
qed

theorem success_error_invariant_witness:
  "handleGetBlindedMessagePartialSig degradedEnv sampleBody =
     ([Inc Counter_requests, AuthenticateUser, GetRemainingQueryCount, GetBlockNumber,
       Inc Counter_blockchainErrors, GetPrivateKey, ComputeBlindedSignature,
       GetRequestExists, StoreRequest, IncrementQueryCount, Inc Counter_responses_200],
      Json200 \<lparr>success = False, signature = ''S:B1:k'', version = ''1.1.0'',
               performedQueryCount = 2, totalQuota = 10, blockNumber = - 1,
               error = Some (''CONTRACT_GET_FAILURE, FAILURE_TO_STORE_REQUEST, '' @
                             ''FAILURE_TO_INCREMENT_QUERY_COUNT'')\<rparr>) \<and>
   (\<exists>t' sig l.
      tryBlock degradedEnv sampleBody = (t', Inr (Proceed sig l)) \<and>
      errorMsgs l \<noteq> [] \<and>
      subseq (errorMsgs l)
        [CONTRACT_GET_FAILURE, DUPLICATE_REQUEST_TO_GET_PARTIAL_SIG,
         FAILURE_TO_STORE_REQUEST, FAILURE_TO_INCREMENT_QUERY_COUNT])"
proof -
  have run: "handleGetBlindedMessagePartialSig degradedEnv sampleBody =
     ([Inc Counter_requests, AuthenticateUser, GetRemainingQueryCount, GetBlockNumber,
       Inc Counter_blockchainErrors, GetPrivateKey, ComputeBlindedSignature,
       GetRequestExists, StoreRequest, IncrementQueryCount, Inc Counter_responses_200],
      Json200 \<lparr>success = False, signature = ''S:B1:k'', version = ''1.1.0'',
               performedQueryCount = 2, totalQuota = 10, blockNumber = - 1,
               error = Some (''CONTRACT_GET_FAILURE, FAILURE_TO_STORE_REQUEST, '' @
                             ''FAILURE_TO_INCREMENT_QUERY_COUNT'')\<rparr>)"
    by (simp add: degradedEnv_def sampleEnv_def sampleBody_def handler_defs)
  from success_error_invariant [OF run] run show ?thesis
    by auto
qed

subsection \<open>Failed reads\<close>

text \<open>
  C10. When the quota lookup and the chain-height read both fail, lines 93-114 set the one
  flag \<open>hadBlockchainError\<close> twice, increment the blockchain-error counter once and
  append the tag \<open>CONTRACT_GET_FAILURE\<close> once. At the end of the try block the tag still
  occurs exactly once among the collected tags, and the \<open>error\<close> field of the 200 response
  starts with it and does not repeat it.
\<close>

theorem blockchain_error_tag_once:
  assumes "getRemainingQueryCount env (account body) (hashedPhoneNumber body) = Inl e1"
    and "getBlockNumber env = Inl e2"
  shows "settled (Inl e1) (Inl e2) =
           ([Inc Counter_blockchainErrors],
            \<lparr>errorMsgs = [CONTRACT_GET_FAILURE], var_totalQuota = - 1,
             var_performedQueryCount = - 1, var_blockNumber = - 1,
             hadBlockchainError = True\<rparr>) \<and>
         (\<forall>t sig l. tryBlock env body = (t, Inr (Proceed sig l)) \<longrightarrow>
            count_list (errorMsgs l) CONTRACT_GET_FAILURE = 1) \<and>
         (\<forall>r. snd (handleGetBlindedMessagePartialSig env body) = Json200 r \<longrightarrow>
            (\<exists>rest. CONTRACT_GET_FAILURE \<notin> set rest \<and>
               error r = Some (join '', '' (map (messageText env)
                                              (CONTRACT_GET_FAILURE # rest)))))"
proof (intro conjI allI impI)
  show "settled (Inl e1) (Inl e2) =
           ([Inc Counter_blockchainErrors],
            \<lparr>errorMsgs = [CONTRACT_GET_FAILURE], var_totalQuota = - 1,
             var_performedQueryCount = - 1, var_blockNumber = - 1,
             hadBlockchainError = True\<rparr>)"
    by (simp add: settled_def)
next
  fix t sig l
  assume tb: "tryBlock env body = (t, Inr (Proceed sig l))"
  from proceed_locals [OF tb assms] obtain dup st inc
    where "errorMsgs l =
             (if isl (Inl e1 :: exn + query_count) \<or> isl (Inl e2 :: exn + int)
              then [CONTRACT_GET_FAILURE] else []) @
             (if dup then [DUPLICATE_REQUEST_TO_GET_PARTIAL_SIG]
              else (if st then [] else [FAILURE_TO_STORE_REQUEST]) @
                   (if inc then [] else [FAILURE_TO_INCREMENT_QUERY_COUNT]))"
    by blast
  then show "count_list (errorMsgs l) CONTRACT_GET_FAILURE = 1"
    by simp
next
  fix r
  assume "snd (handleGetBlindedMessagePartialSig env body) = Json200 r"
  then obtain t where run: "handleGetBlindedMessagePartialSig env body = (t, Json200 r)"
    by (cases "handleGetBlindedMessagePartialSig env body") simp
  from json_fields [OF run assms] obtain dup st inc tags
    where tags: "tags =
             (if isl (Inl e1 :: exn + query_count) \<or> isl (Inl e2 :: exn + int)
              then [CONTRACT_GET_FAILURE] else []) @
             (if dup then [DUPLICATE_REQUEST_TO_GET_PARTIAL_SIG]
              else (if st then [] else [FAILURE_TO_STORE_REQUEST]) @
                   (if inc then [] else [FAILURE_TO_INCREMENT_QUERY_COUNT]))"
      and err: "error r = (if tags = [] then None
                           else Some (join '', '' (map (messageText env) tags)))"
    by blast
  show "\<exists>rest. CONTRACT_GET_FAILURE \<notin> set rest \<and>
          error r = Some (join '', '' (map (messageText env) (CONTRACT_GET_FAILURE # rest)))"
    by (rule exI [of _ "tl tags"]) (simp add: err tags)
qed

theorem blockchain_error_tag_once_witness:
  "getRemainingQueryCount allReadsDownEnv (account sampleBody) (hashedPhoneNumber sampleBody) =
     Inl ''quota lookup failed'' \<and>
   getBlockNumber allReadsDownEnv = Inl ''no block number'' \<and>
   snd (handleGetBlindedMessagePartialSig allReadsDownEnv sampleBody) =
     Json200 \<lparr>success = False, signature = ''S:B1:k'', version = ''1.1.0'',
              performedQueryCount = 0, totalQuota = - 1, blockNumber = - 1,
              error = Some ''CONTRACT_GET_FAILURE''\<rparr> \<and>
   snd (tryBlock allReadsDownEnv sampleBody) =
     Inr (Proceed ''S:B1:k''
            \<lparr>errorMsgs = [CONTRACT_GET_FAILURE], var_totalQuota = - 1,
             var_performedQueryCount = 0, var_blockNumber = - 1,
             hadBlockchainError = True\<rparr>) \<and>
   count_list [CONTRACT_GET_FAILURE] CONTRACT_GET_FAILURE = (1 :: nat)"
  using blockchain_error_tag_once
      [where env = allReadsDownEnv and body = sampleBody
         and ?e1.0 = "''quota lookup failed''" and ?e2.0 = "''no block number''"]
  by (simp add: allReadsDownEnv_def sampleEnv_def sampleBody_def handler_defs)

subsection \<open>Exceptions\<close>



subsection \<open>A failed quota lookup\<close>

text \<open>
  C2, as the specification states it, fails: the tags of the later steps are appended
  to the same list. Here the quota lookup failed and the request was a duplicate, and
  the list holds two tags.
\<close>

theorem quota_failure_tags_counterexample:
  "isValidGetSignatureInput quotaDownDuplicateEnv sampleBody \<and>
   authenticateUser quotaDownDuplicateEnv sampleBody = Inr True \<and>
   getRemainingQueryCount quotaDownDuplicateEnv (account sampleBody)
     (hashedPhoneNumber sampleBody) = Inl ''quota lookup failed'' \<and>
   snd (tryBlock quotaDownDuplicateEnv sampleBody) =
     Inr (Proceed ''S:B1:k''
            \<lparr>errorMsgs = [CONTRACT_GET_FAILURE, DUPLICATE_REQUEST_TO_GET_PARTIAL_SIG],
             var_totalQuota = - 1, var_performedQueryCount = - 1, var_blockNumber = 500,
             hadBlockchainError = True\<rparr>) \<and>
   snd (handleGetBlindedMessagePartialSig quotaDownDuplicateEnv sampleBody) =
     Json200 \<lparr>success = False, signature = ''S:B1:k'', version = ''1.1.0'',
              performedQueryCount = - 1, totalQuota = - 1, blockNumber = 500,
              error = Some ''CONTRACT_GET_FAILURE, DUPLICATE_REQUEST''\<rparr>"
  by (simp add: quotaDownDuplicateEnv_def sampleEnv_def sampleBody_def handler_defs)

text \<open>
  C2, amended. For a valid, authenticated request whose quota lookup fails, lines 93-114
  leave performedQueryCount and totalQuota at the sentinel \<open>-1\<close> and raise the flag; the
  quota gate does not reject (the response is never the 403 response); the key provider
  is called, and the signature engine is called whenever the key provider returned a key.
  Every 200 response then has \<open>success = false\<close>, \<open>totalQuota = -1\<close> and an \<open>error\<close> field
  that starts with the contract-read-failure tag and does not repeat it. The \<open>error\<close>
  field is exactly that tag when the request is not a duplicate and both writes returned
  true.
\<close>

theorem quota_lookup_failure_fails_open:
  assumes "isValidGetSignatureInput env body"
    and "authenticateUser env body = Inr True"
    and "getRemainingQueryCount env (account body) (hashedPhoneNumber body) = Inl e"
  shows "var_performedQueryCount (snd (settled (Inl e) (getBlockNumber env))) = - 1 \<and>
         var_totalQuota (snd (settled (Inl e) (getBlockNumber env))) = - 1 \<and>
         hadBlockchainError (snd (settled (Inl e) (getBlockNumber env))) \<and>
         \<not> quotaExceeded (Inl e) (snd (settled (Inl e) (getBlockNumber env))) \<and>
         (\<forall>m details. snd (handleGetBlindedMessagePartialSig env body) \<noteq>
                        RespondWithError 403 m details) \<and>
         GetPrivateKey \<in> set (fst (handleGetBlindedMessagePartialSig env body)) \<and>
         (\<forall>key. getPrivateKey env = Inr key \<longrightarrow>
            ComputeBlindedSignature \<in> set (fst (handleGetBlindedMessagePartialSig env body))) \<and>
         (\<forall>r. snd (handleGetBlindedMessagePartialSig env body) = Json200 r \<longrightarrow>
            success r = False \<and> totalQuota r = - 1 \<and>
            (\<exists>rest. CONTRACT_GET_FAILURE \<notin> set rest \<and>
               error r = Some (join '', '' (map (messageText env)
                                              (CONTRACT_GET_FAILURE # rest))))) \<and>
         (\<forall>key sig.
            getPrivateKey env = Inr key \<and>
            computeBlindedSignature env (blindedQueryPhoneNumber body) key = Inr sig \<and>
            getRequestExists env body = Inr False \<and>
            storeRequest env body = Inr True \<and>
            incrementQueryCount env (account body) = Inr True \<longrightarrow>
            (\<exists>r. snd (handleGetBlindedMessagePartialSig env body) = Json200 r \<and>
                 signature r = sig \<and>
                 error r = Some (messageText env CONTRACT_GET_FAILURE)))"
proof -
  have gate: "\<not> quotaExceeded (Inl e) (snd (settled (Inl e) (getBlockNumber env)))"
    by (simp add: quotaExceeded_def)
  have sentinel:
    "var_performedQueryCount (snd (settled (Inl e) (getBlockNumber env))) = - 1 \<and>
     var_totalQuota (snd (settled (Inl e) (getBlockNumber env))) = - 1 \<and>
     hadBlockchainError (snd (settled (Inl e) (getBlockNumber env)))"
    by (simp add: settled_eq)
  have not403: "\<forall>m details. snd (handleGetBlindedMessagePartialSig env body) \<noteq>
                  RespondWithError 403 m details"
    using assms gate
    by (auto simp add: snd_handler snd_tryBlock Let_def split: sum.splits)
  have events: "fst (tryBlock env body) =
           AuthenticateUser # GetRemainingQueryCount # GetBlockNumber #
           fst (settled (Inl e) (getBlockNumber env)) @
           GetPrivateKey #
           (case getPrivateKey env of
              Inl e \<Rightarrow> []
            | Inr privateKey \<Rightarrow>
                ComputeBlindedSignature #
                (case computeBlindedSignature env (blindedQueryPhoneNumber body) privateKey of
                   Inl e \<Rightarrow> []
                 | Inr sig \<Rightarrow>
                     fst (dbOps env body (snd (settled (Inl e) (getBlockNumber env))))))"
    by (rule fst_tryBlock_passed [OF assms gate])
  have key: "GetPrivateKey \<in> set (fst (handleGetBlindedMessagePartialSig env body))"
    by (simp add: fst_handler events)
  have engine: "\<forall>key. getPrivateKey env = Inr key \<longrightarrow>
            ComputeBlindedSignature \<in> set (fst (handleGetBlindedMessagePartialSig env body))"
    by (simp add: fst_handler events)
  have json: "\<forall>r. snd (handleGetBlindedMessagePartialSig env body) = Json200 r \<longrightarrow>
            success r = False \<and> totalQuota r = - 1 \<and>
            (\<exists>rest. CONTRACT_GET_FAILURE \<notin> set rest \<and>
               error r = Some (join '', '' (map (messageText env)
                                              (CONTRACT_GET_FAILURE # rest))))"
  proof (intro allI impI)
    fix r
    assume "snd (handleGetBlindedMessagePartialSig env body) = Json200 r"
    then obtain t where run: "handleGetBlindedMessagePartialSig env body = (t, Json200 r)"
      by (cases "handleGetBlindedMessagePartialSig env body") simp
    from json_fields [OF run assms(3) refl] obtain dup st inc tags
      where tags: "tags =
               (if isl (Inl e :: exn + query_count) \<or> isl (getBlockNumber env)
                then [CONTRACT_GET_FAILURE] else []) @
               (if dup then [DUPLICATE_REQUEST_TO_GET_PARTIAL_SIG]
                else (if st then [] else [FAILURE_TO_STORE_REQUEST]) @
                     (if inc then [] else [FAILURE_TO_INCREMENT_QUERY_COUNT]))"
        and suc: "success r = (tags = [])"
        and err: "error r = (if tags = [] then None
                             else Some (join '', '' (map (messageText env) tags)))"
        and tq: "totalQuota r =
               (case (Inl e :: exn + query_count) of
                  Inl reason \<Rightarrow> - 1 | Inr v \<Rightarrow> value_totalQuota v)"
      by blast
    have "\<exists>rest. CONTRACT_GET_FAILURE \<notin> set rest \<and>
            error r = Some (join '', '' (map (messageText env) (CONTRACT_GET_FAILURE # rest)))"
      by (rule exI [of _ "tl tags"]) (simp add: err tags)
    with suc tq tags
    show "success r = False \<and> totalQuota r = - 1 \<and>
            (\<exists>rest. CONTRACT_GET_FAILURE \<notin> set rest \<and>
               error r = Some (join '', '' (map (messageText env)
                                              (CONTRACT_GET_FAILURE # rest))))"
      by simp
  qed
  have only: "\<forall>key sig.
            getPrivateKey env = Inr key \<and>
            computeBlindedSignature env (blindedQueryPhoneNumber body) key = Inr sig \<and>
            getRequestExists env body = Inr False \<and>
            storeRequest env body = Inr True \<and>
            incrementQueryCount env (account body) = Inr True \<longrightarrow>
            (\<exists>r. snd (handleGetBlindedMessagePartialSig env body) = Json200 r \<and>
                 signature r = sig \<and>
                 error r = Some (messageText env CONTRACT_GET_FAILURE))"
    using assms gate
    by (auto simp add: snd_handler snd_tryBlock snd_dbOps settled_eq signMessageResponse_def
        Let_def)
  from sentinel gate not403 key engine json only show ?thesis
    by blast
qed

theorem quota_lookup_failure_fails_open_witness:
  "isValidGetSignatureInput quotaDownEnv sampleBody \<and>
   authenticateUser quotaDownEnv sampleBody = Inr True \<and>
   getRemainingQueryCount quotaDownEnv (account sampleBody) (hashedPhoneNumber sampleBody) =
     Inl ''quota lookup failed'' \<and>
   getPrivateKey quotaDownEnv = Inr ''k'' \<and>
   GetPrivateKey \<in> set (fst (handleGetBlindedMessagePartialSig quotaDownEnv sampleBody)) \<and>
   ComputeBlindedSignature \<in>
     set (fst (handleGetBlindedMessagePartialSig quotaDownEnv sampleBody)) \<and>
   (\<exists>r. snd (handleGetBlindedMessagePartialSig quotaDownEnv sampleBody) = Json200 r \<and>
        signature r = ''S:B1:k'' \<and>
        error r = Some (messageText quotaDownEnv CONTRACT_GET_FAILURE))"
  using quota_lookup_failure_fails_open
      [where env = quotaDownEnv and body = sampleBody and e = "''quota lookup failed''"]
  by (simp add: quotaDownEnv_def sampleEnv_def sampleBody_def isValidGetSignatureInput_def)

subsection \<open>The numbers in the 200 response\<close>

text \<open>
  C4, as the specification states it, fails in its last part: line 157 increments the
  locally held performedQueryCount after a successful counter increment, also when the
  value is the sentinel. Here the quota lookup failed, the request was new and both
  writes succeeded; the response reports \<open>performedQueryCount = 0\<close>.
\<close>

theorem sentinel_count_counterexample:
  "getRemainingQueryCount quotaDownEnv (account sampleBody) (hashedPhoneNumber sampleBody) =
     Inl ''quota lookup failed'' \<and>
   incrementQueryCount quotaDownEnv (account sampleBody) = Inr True \<and>
   snd (handleGetBlindedMessagePartialSig quotaDownEnv sampleBody) =
     Json200 \<lparr>success = False, signature = ''S:B1:k'', version = ''1.1.0'',
              performedQueryCount = 0, totalQuota = - 1, blockNumber = 500,
              error = Some ''CONTRACT_GET_FAILURE''\<rparr>"
  by (simp add: quotaDownEnv_def sampleEnv_def sampleBody_def handler_defs)

text \<open>
  C4, amended. The 200 response carries the values of the local variables
  performedQueryCount, totalQuota and blockNumber as they stand at the end of the try
  block. totalQuota is \<open>-1\<close> whenever the quota lookup failed and blockNumber is \<open>-1\<close>
  whenever the chain-height read failed. After a failed quota lookup performedQueryCount
  is \<open>-1\<close> when the request is a duplicate or the counter increment returned false.
\<close>

theorem response_carries_local_values:
  assumes "handleGetBlindedMessagePartialSig env body = (t, Json200 r)"
  shows "(\<exists>t' sig l.
            tryBlock env body = (t', Inr (Proceed sig l)) \<and>
            performedQueryCount r = var_performedQueryCount l \<and>
            totalQuota r = var_totalQuota l \<and>
            blockNumber r = var_blockNumber l) \<and>
         (isl (getRemainingQueryCount env (account body) (hashedPhoneNumber body)) \<longrightarrow>
            totalQuota r = - 1) \<and>
         (isl (getBlockNumber env) \<longrightarrow> blockNumber r = - 1) \<and>
         (isl (getRemainingQueryCount env (account body) (hashedPhoneNumber body)) \<and>
          (getRequestExists env body = Inr True \<or>
           incrementQueryCount env (account body) = Inr False) \<longrightarrow>
            performedQueryCount r = - 1)"
proof -
  from handler_Json200 [OF assms] obtain t' sig l
    where tb: "tryBlock env body = (t', Inr (Proceed sig l))"
      and r: "r = signMessageResponse env sig l"
    by blast
  have carried: "performedQueryCount r = var_performedQueryCount l \<and>
            totalQuota r = var_totalQuota l \<and> blockNumber r = var_blockNumber l"
    by (simp add: r signMessageResponse_def Let_def)
  from json_fields [OF assms refl refl] obtain dup st inc
    where ex: "getRequestExists env body = Inr dup"
      and wr: "\<not> dup \<longrightarrow> storeRequest env body = Inr st \<and>
                 incrementQueryCount env (account body) = Inr inc"
      and tq: "totalQuota r =
             (case getRemainingQueryCount env (account body) (hashedPhoneNumber body) of
                Inl reason \<Rightarrow> - 1 | Inr v \<Rightarrow> value_totalQuota v)"
      and pqc: "performedQueryCount r =
             (case getRemainingQueryCount env (account body) (hashedPhoneNumber body) of
                Inl reason \<Rightarrow> - 1 | Inr v \<Rightarrow> value_performedQueryCount v) +
             (if \<not> dup \<and> inc then 1 else 0)"
      and bn: "blockNumber r =
             (case getBlockNumber env of Inl reason \<Rightarrow> - 1 | Inr n \<Rightarrow> n)"
    by blast
  have quota: "isl (getRemainingQueryCount env (account body) (hashedPhoneNumber body)) \<longrightarrow>
            totalQuota r = - 1"
    by (cases "getRemainingQueryCount env (account body) (hashedPhoneNumber body)")
       (simp_all add: tq)
  have block: "isl (getBlockNumber env) \<longrightarrow> blockNumber r = - 1"
    by (cases "getBlockNumber env") (simp_all add: bn)
  have count: "isl (getRemainingQueryCount env (account body) (hashedPhoneNumber body)) \<and>
          (getRequestExists env body = Inr True \<or>
           incrementQueryCount env (account body) = Inr False) \<longrightarrow>
            performedQueryCount r = - 1"
    using ex wr
    by (cases "getRemainingQueryCount env (account body) (hashedPhoneNumber body)")
       (auto simp add: pqc)
  from tb carried quota block count show ?thesis
    by blast
qed

theorem response_carries_local_values_witness:
  "handleGetBlindedMessagePartialSig quotaDownDuplicateEnv sampleBody =
     ([Inc Counter_requests, AuthenticateUser, GetRemainingQueryCount, GetBlockNumber,
       Inc Counter_blockchainErrors, GetPrivateKey, ComputeBlindedSignature,
       GetRequestExists, Inc Counter_duplicateRequests, Inc Counter_responses_200],
      Json200 \<lparr>success = False, signature = ''S:B1:k'', version = ''1.1.0'',
               performedQueryCount = - 1, totalQuota = - 1, blockNumber = 500,
               error = Some ''CONTRACT_GET_FAILURE, DUPLICATE_REQUEST''\<rparr>) \<and>
   isl (getRemainingQueryCount quotaDownDuplicateEnv (account sampleBody)
          (hashedPhoneNumber sampleBody)) \<and>
   getRequestExists quotaDownDuplicateEnv sampleBody = Inr True \<and>
   (\<exists>t' sig l.
      tryBlock quotaDownDuplicateEnv sampleBody = (t', Inr (Proceed sig l)) \<and>
      var_performedQueryCount l = - 1 \<and> var_totalQuota l = - 1 \<and> var_blockNumber l = 500)"
proof -
  have run: "handleGetBlindedMessagePartialSig quotaDownDuplicateEnv sampleBody =
     ([Inc Counter_requests, AuthenticateUser, GetRemainingQueryCount, GetBlockNumber,
       Inc Counter_blockchainErrors, GetPrivateKey, ComputeBlindedSignature,
       GetRequestExists, Inc Counter_duplicateRequests, Inc Counter_responses_200],
      Json200 \<lparr>success = False, signature = ''S:B1:k'', version = ''1.1.0'',
               performedQueryCount = - 1, totalQuota = - 1, blockNumber = 500,
               error = Some ''CONTRACT_GET_FAILURE, DUPLICATE_REQUEST''\<rparr>)"
    by (simp add: quotaDownDuplicateEnv_def sampleEnv_def sampleBody_def handler_defs)
  have src: "isl (getRemainingQueryCount quotaDownDuplicateEnv (account sampleBody)
          (hashedPhoneNumber sampleBody)) \<and>
      getRequestExists quotaDownDuplicateEnv sampleBody = Inr True"
    by (simp add: quotaDownDuplicateEnv_def sampleEnv_def sampleBody_def)
  from response_carries_local_values [OF run] run src show ?thesis
    by auto
qed

subsection \<open>A failed chain-height read\<close>

text \<open>
  C8, as the specification states it, fails for performedQueryCount: the response
  carries the looked-up value only until line 157 increments it. Here the lookup returned
  2 of 10, the chain-height read failed, the request was new and both writes succeeded;
  the response reports \<open>performedQueryCount = 3\<close>.
\<close>

theorem chain_failure_count_counterexample:
  "getRemainingQueryCount chainDownEnv (account sampleBody) (hashedPhoneNumber sampleBody) =
     Inr \<lparr>value_performedQueryCount = 2, value_totalQuota = 10\<rparr> \<and>
   getBlockNumber chainDownEnv = Inl ''no block number'' \<and>
   snd (handleGetBlindedMessagePartialSig chainDownEnv sampleBody) =
     Json200 \<lparr>success = False, signature = ''S:B1:k'', version = ''1.1.0'',
              performedQueryCount = 3, totalQuota = 10, blockNumber = - 1,
              error = Some ''CONTRACT_GET_FAILURE''\<rparr>"
  by (simp add: chainDownEnv_def sampleEnv_def sampleBody_def handler_defs)

text \<open>
  C8, amended. If the chain-height read fails and the quota lookup succeeds, the 200
  response carries the looked-up totalQuota, and the looked-up performedQueryCount plus
  one if the request was new and the counter increment returned true (the looked-up value
  itself otherwise); it has \<open>success = false\<close>, its \<open>error\<close> field starts with the
  contract-read-failure tag, and it reports \<open>blockNumber = -1\<close>.
\<close>

theorem chain_failure_keeps_quota:
  assumes "handleGetBlindedMessagePartialSig env body = (t, Json200 r)"
    and "getRemainingQueryCount env (account body) (hashedPhoneNumber body) = Inr v"
    and "getBlockNumber env = Inl e"
  shows "totalQuota r = value_totalQuota v \<and>
         performedQueryCount r =
           value_performedQueryCount v +
           (if getRequestExists env body = Inr False \<and>
               incrementQueryCount env (account body) = Inr True
            then 1 else 0) \<and>
         blockNumber r = - 1 \<and>
         success r = False \<and>
         (\<exists>rest. CONTRACT_GET_FAILURE \<notin> set rest \<and>
            error r = Some (join '', '' (map (messageText env) (CONTRACT_GET_FAILURE # rest))))"
proof -
  from json_fields [OF assms] obtain dup st inc tags
    where ex: "getRequestExists env body = Inr dup"
      and wr: "\<not> dup \<longrightarrow> storeRequest env body = Inr st \<and>
                 incrementQueryCount env (account body) = Inr inc"
      and tags: "tags =
             (if isl (Inr v :: exn + query_count) \<or> isl (Inl e :: exn + int)
              then [CONTRACT_GET_FAILURE] else []) @
             (if dup then [DUPLICATE_REQUEST_TO_GET_PARTIAL_SIG]
              else (if st then [] else [FAILURE_TO_STORE_REQUEST]) @
                   (if inc then [] else [FAILURE_TO_INCREMENT_QUERY_COUNT]))"
      and suc: "success r = (tags = [])"
      and err: "error r = (if tags = [] then None
                           else Some (join '', '' (map (messageText env) tags)))"
      and tq: "totalQuota r =
             (case (Inr v :: exn + query_count) of
                Inl reason \<Rightarrow> - 1 | Inr v \<Rightarrow> value_totalQuota v)"
      and pqc: "performedQueryCount r =
             (case (Inr v :: exn + query_count) of
                Inl reason \<Rightarrow> - 1 | Inr v \<Rightarrow> value_performedQueryCount v) +
             (if \<not> dup \<and> inc then 1 else 0)"
      and bn: "blockNumber r =
             (case (Inl e :: exn + int) of Inl reason \<Rightarrow> - 1 | Inr n \<Rightarrow> n)"
    by blast
  have count: "performedQueryCount r =
           value_performedQueryCount v +
           (if getRequestExists env body = Inr False \<and>
               incrementQueryCount env (account body) = Inr True
            then 1 else 0)"
    using ex wr by (cases dup; cases inc) (simp_all add: pqc)
  have tag: "\<exists>rest. CONTRACT_GET_FAILURE \<notin> set rest \<and>
            error r = Some (join '', '' (map (messageText env) (CONTRACT_GET_FAILURE # rest)))"
    by (rule exI [of _ "tl tags"]) (simp add: err tags)
  from count tag show ?thesis
    by (simp add: tq bn suc tags)
qed

theorem chain_failure_keeps_quota_witness:
  "handleGetBlindedMessagePartialSig chainDownDuplicateEnv sampleBody =
     ([Inc Counter_requests, AuthenticateUser, GetRemainingQueryCount, GetBlockNumber,
       Inc Counter_blockchainErrors, GetPrivateKey, ComputeBlindedSignature,
       GetRequestExists, Inc Counter_duplicateRequests, Inc Counter_responses_200],
      Json200 \<lparr>success = False, signature = ''S:B1:k'', version = ''1.1.0'',
               performedQueryCount = 2, totalQuota = 10, blockNumber = - 1,
               error = Some ''CONTRACT_GET_FAILURE, DUPLICATE_REQUEST''\<rparr>) \<and>
   (\<exists>rest. CONTRACT_GET_FAILURE \<notin> set rest \<and>
      Some ''CONTRACT_GET_FAILURE, DUPLICATE_REQUEST'' =
        Some (join '', '' (map sampleText (CONTRACT_GET_FAILURE # rest))))"
proof -
  have run: "handleGetBlindedMessagePartialSig chainDownDuplicateEnv sampleBody =
     ([Inc Counter_requests, AuthenticateUser, GetRemainingQueryCount, GetBlockNumber,
       Inc Counter_blockchainErrors, GetPrivateKey, ComputeBlindedSignature,
       GetRequestExists, Inc Counter_duplicateRequests, Inc Counter_responses_200],
      Json200 \<lparr>success = False, signature = ''S:B1:k'', version = ''1.1.0'',
               performedQueryCount = 2, totalQuota = 10, blockNumber = - 1,
               error = Some ''CONTRACT_GET_FAILURE, DUPLICATE_REQUEST''\<rparr>)"
    by (simp add: chainDownDuplicateEnv_def sampleEnv_def sampleBody_def handler_defs)
  have q: "getRemainingQueryCount chainDownDuplicateEnv
             (account sampleBody) (hashedPhoneNumber sampleBody) =
           Inr \<lparr>value_performedQueryCount = 2, value_totalQuota = 10\<rparr>"
    and b: "getBlockNumber chainDownDuplicateEnv =
           Inl ''no block number''"
    by (simp_all add: chainDownDuplicateEnv_def sampleEnv_def sampleBody_def)
  from chain_failure_keeps_quota [OF run q b] run show ?thesis
    by (simp add: chainDownDuplicateEnv_def sampleEnv_def sampleBody_def)
qed

end
